theory Spec2Isabelle
  imports Main "HOL-Library.Word" "HOL-Library.Sublist"
begin

section \<open>JavaScript values as the server sees them\<close>

text \<open>
  The server is a JavaScript program (\<^verbatim>\<open>src/index.js\<close>) over decoded JSON.  A JavaScript
  string is a sequence of UTF-16 code units, and \<^verbatim>\<open>length\<close>, \<^verbatim>\<open>slice\<close> and
  \<^verbatim>\<open>substring\<close> count code units, so a string is a list of 16-bit words.
\<close>

type_synonym jsstring = "16 word list"

definition lit :: "string \<Rightarrow> jsstring" where
  "lit s = map (\<lambda>c. of_nat (of_char c)) s"

definition nl :: jsstring where
  "nl = [0x0A]"

definition bullet :: jsstring where
  \<comment> \<open>U+2022\<close>
  "bullet = [0x2022]"

definition check_mark :: jsstring where
  \<comment> \<open>U+2713\<close>
  "check_mark = [0x2713]"

definition ellipsis :: jsstring where
  \<comment> \<open>U+2026\<close>
  "ellipsis = [0x2026]"

definition em_dash :: jsstring where
  \<comment> \<open>U+2014\<close>
  "em_dash = [0x2014]"

text \<open>
  A value is what \<^verbatim>\<open>JSON.parse\<close> can produce from numbers within the range of a double, or
  \<^verbatim>\<open>undefined\<close> (the value of a missing property).  A number literal beyond that range,
  which decodes to an infinity, has no value here.  \<open>Num n\<close> is a number with the integral value \<open>n\<close>, \<open>\<bar>n\<bar> \<le> 2^53\<close>, where
  \<^verbatim>\<open>ToString\<close> is the decimal numeral.  \<open>Frac s\<close> is any other finite number (it is never
  zero), given by its \<^verbatim>\<open>ToString\<close> rendering \<open>s\<close>, such as \<^verbatim>\<open>0.87\<close>.  An object is the
  list of its own properties.
\<close>

datatype jsval =
    Undefined
  | Null
  | Bool bool
  | Num int
  | Frac jsstring
  | Str jsstring
  | Arr "jsval list"
  | Obj "(jsstring \<times> jsval) list"

text \<open>An exception: an \<^verbatim>\<open>Error\<close> object with its \<^verbatim>\<open>name\<close> and \<^verbatim>\<open>message\<close>.\<close>

datatype js_error = Err (err_name: jsstring) (message: jsstring)

definition Error :: "jsstring \<Rightarrow> js_error" where
  "Error msg = Err (lit ''Error'') msg"

definition TypeError :: "jsstring \<Rightarrow> js_error" where
  "TypeError msg = Err (lit ''TypeError'') msg"

text \<open>Sequencing of computations that may throw: the first exception wins.\<close>

definition andThen :: "js_error + 'a \<Rightarrow> ('a \<Rightarrow> js_error + 'b) \<Rightarrow> js_error + 'b" where
  "andThen m f = (case m of Inl e \<Rightarrow> Inl e | Inr x \<Rightarrow> f x)"

fun mapE :: "('a \<Rightarrow> js_error + 'b) \<Rightarrow> 'a list \<Rightarrow> js_error + 'b list" where
  "mapE f [] = Inr []"
| "mapE f (x # xs) =
     (case f x of Inl e \<Rightarrow> Inl e
      | Inr y \<Rightarrow> (case mapE f xs of Inl e \<Rightarrow> Inl e | Inr ys \<Rightarrow> Inr (y # ys)))"

text \<open>\<^verbatim>\<open>ToBoolean\<close>: what \<^verbatim>\<open>if (v)\<close>, \<^verbatim>\<open>!v\<close>, \<^verbatim>\<open>v || d\<close> and \<^verbatim>\<open>v ? a : b\<close> test.\<close>

fun truthy :: "jsval \<Rightarrow> bool" where
  "truthy Undefined = False"
| "truthy Null = False"
| "truthy (Bool b) = b"
| "truthy (Num n) = (n \<noteq> 0)"
| "truthy (Frac s) = True"
| "truthy (Str s) = (s \<noteq> [])"
| "truthy (Arr xs) = True"
| "truthy (Obj kvs) = True"

text \<open>\<^verbatim>\<open>v ?? d\<close> and \<^verbatim>\<open>v != null\<close> test for \<^verbatim>\<open>undefined\<close> and \<^verbatim>\<open>null\<close> only.\<close>

fun nullish :: "jsval \<Rightarrow> bool" where
  "nullish Undefined = True"
| "nullish Null = True"
| "nullish v = False"

text \<open>
  Property access \<^verbatim>\<open>v.k\<close>, for the property names the program reads (none of them is
  inherited from a prototype, except \<^verbatim>\<open>length\<close> of strings and arrays).  The messages are
  those of Node.js.
\<close>

fun get_prop :: "jsval \<Rightarrow> jsstring \<Rightarrow> js_error + jsval" where
  "get_prop Undefined k =
     Inl (TypeError (lit ''Cannot read properties of undefined (reading '' @ [0x27] @ k @ [0x27] @ lit '')''))"
| "get_prop Null k =
     Inl (TypeError (lit ''Cannot read properties of null (reading '' @ [0x27] @ k @ [0x27] @ lit '')''))"
| "get_prop (Obj kvs) k = Inr (case map_of kvs k of None \<Rightarrow> Undefined | Some v \<Rightarrow> v)"
| "get_prop (Arr xs) k = Inr (if k = lit ''length'' then Num (int (length xs)) else Undefined)"
| "get_prop (Str s) k = Inr (if k = lit ''length'' then Num (int (length s)) else Undefined)"
| "get_prop v k = Inr Undefined"

text \<open>Optional chaining \<^verbatim>\<open>v?.length\<close>.\<close>

definition opt_length :: "jsval \<Rightarrow> jsval" where
  "opt_length v =
     (if nullish v then Undefined
      else case get_prop v (lit ''length'') of Inl e \<Rightarrow> Undefined | Inr l \<Rightarrow> l)"

text \<open>Decimal numerals.\<close>

fun show_nat :: "nat \<Rightarrow> jsstring" where
  "show_nat n = (if n < 10 then [of_nat (48 + n)] else show_nat (n div 10) @ [of_nat (48 + n mod 10)])"

definition show_int :: "int \<Rightarrow> jsstring" where
  "show_int i = (if i < 0 then lit ''-'' @ show_nat (nat (- i)) else show_nat (nat i))"

text \<open>\<^verbatim>\<open>Array.prototype.join\<close> on strings.\<close>

fun join :: "jsstring \<Rightarrow> jsstring list \<Rightarrow> jsstring" where
  "join sep [] = []"
| "join sep [x] = x"
| "join sep (x # y # ys) = x @ sep @ join sep (y # ys)"

text \<open>
  \<^verbatim>\<open>ToString\<close>, as applied by template literals, \<^verbatim>\<open>String(v)\<close>, \<^verbatim>\<open>new Error(v)\<close>,
  \<^verbatim>\<open>URLSearchParams\<close> and \<^verbatim>\<open>join\<close>.  An array is joined with commas, \<^verbatim>\<open>null\<close> and
  \<^verbatim>\<open>undefined\<close> elements giving the empty string.  A decoded object inherits
  \<^verbatim>\<open>Object.prototype.toString\<close> unless it has an own property \<^verbatim>\<open>toString\<close>, which is
  never callable: then the conversion throws.
\<close>

fun to_string :: "jsval \<Rightarrow> js_error + jsstring"
  and elem_strings :: "jsval list \<Rightarrow> js_error + jsstring list" where
  "to_string Undefined = Inr (lit ''undefined'')"
| "to_string Null = Inr (lit ''null'')"
| "to_string (Bool b) = Inr (if b then lit ''true'' else lit ''false'')"
| "to_string (Num n) = Inr (show_int n)"
| "to_string (Frac s) = Inr s"
| "to_string (Str s) = Inr s"
| "to_string (Arr xs) =
     (case elem_strings xs of Inl e \<Rightarrow> Inl e | Inr ss \<Rightarrow> Inr (join (lit '','') ss))"
| "to_string (Obj kvs) =
     (if map_of kvs (lit ''toString'') = None then Inr (lit ''[object Object]'')
      else Inl (TypeError (lit ''Cannot convert object to primitive value'')))"
| "elem_strings [] = Inr []"
| "elem_strings (x # xs) =
     (case (if nullish x then Inr [] else to_string x) of Inl e \<Rightarrow> Inl e
      | Inr s \<Rightarrow> (case elem_strings xs of Inl e \<Rightarrow> Inl e | Inr ss \<Rightarrow> Inr (s # ss)))"

text \<open>
  \<^verbatim>\<open>String.prototype.toWellFormed\<close>, the conversion to a \<^verbatim>\<open>USVString\<close> that
  \<^verbatim>\<open>URLSearchParams\<close> applies to every name and value: a surrogate code unit that is not
  part of a pair (a high one directly followed by a low one) becomes U+FFFD.
\<close>

definition high_surrogate :: "16 word \<Rightarrow> bool" where
  "high_surrogate x \<longleftrightarrow> 0xD800 \<le> x \<and> x \<le> 0xDBFF"

definition low_surrogate :: "16 word \<Rightarrow> bool" where
  "low_surrogate x \<longleftrightarrow> 0xDC00 \<le> x \<and> x \<le> 0xDFFF"

fun toWellFormed :: "jsstring \<Rightarrow> jsstring" where
  "toWellFormed [] = []"
| "toWellFormed [x] = (if high_surrogate x \<or> low_surrogate x then [0xFFFD] else [x])"
| "toWellFormed (x # y # zs) =
     (if high_surrogate x \<and> low_surrogate y then x # y # toWellFormed zs
      else if high_surrogate x \<or> low_surrogate x then 0xFFFD # toWellFormed (y # zs)
      else x # toWellFormed (y # zs))"

text \<open>\<^verbatim>\<open>s.includes(t)\<close>.\<close>

definition includes_js :: "jsstring \<Rightarrow> jsstring \<Rightarrow> bool" where
  "includes_js s t = sublist t s"


text \<open>
  The comparison \<^verbatim>\<open>l > n\<close> with a number \<open>n\<close>.  \<^verbatim>\<open>undefined\<close> converts to NaN,
  \<^verbatim>\<open>null\<close> to 0, a boolean to 0 or 1.  A string is converted by the engine's
  string-to-number conversion, which this development does not define: \<open>gt s n\<close> stands
  for its outcome \<^verbatim>\<open>Number(s) > n\<close> and stays a parameter (a \<open>Frac\<close> number is the number
  its rendering converts to).  An array is converted through its string, an object to NaN.
\<close>

fun exceeds :: "(jsstring \<Rightarrow> int \<Rightarrow> bool) \<Rightarrow> jsval \<Rightarrow> int \<Rightarrow> js_error + bool" where
  "exceeds gt Undefined n = Inr False"
| "exceeds gt Null n = Inr (0 > n)"
| "exceeds gt (Bool b) n = Inr ((if b then 1 else 0) > n)"
| "exceeds gt (Num k) n = Inr (k > n)"
| "exceeds gt (Frac s) n = Inr (gt s n)"
| "exceeds gt (Str s) n = Inr (gt s n)"
| "exceeds gt (Arr xs) n = andThen (to_string (Arr xs)) (\<lambda>s. Inr (gt s n))"
| "exceeds gt (Obj kvs) n = andThen (to_string (Obj kvs)) (\<lambda>s. Inr False)"

text \<open>\<^verbatim>\<open>v.map(f)\<close>: only an array has the method; \<open>what\<close> is the source text of \<open>v\<close>.\<close>

definition array_map :: "jsstring \<Rightarrow> (jsval \<Rightarrow> js_error + 'b) \<Rightarrow> jsval \<Rightarrow> js_error + 'b list" where
  "array_map what f v =
     (case v of Arr xs \<Rightarrow> mapE f xs
      | _ \<Rightarrow> Inl (TypeError (what @ lit ''.map is not a function'')))"

text \<open>
  \<^verbatim>\<open>JSON.stringify\<close> of an object with the given properties, as the JSON value that the
  produced text denotes: a property whose value is \<^verbatim>\<open>undefined\<close> is not serialised.
\<close>

definition JSON_stringify :: "(jsstring \<times> jsval) list \<Rightarrow> jsval" where
  "JSON_stringify props = Obj (filter (\<lambda>(k, v). v \<noteq> Undefined) props)"

section \<open>Configuration and the HTTP client wrapper\<close>

text \<open>
  The constants read from the environment at start-up (lines 11 to 16).  \<open>RECALL_LIMIT\<close> is
  the result of \<^verbatim>\<open>parseInt\<close>, \<open>None\<close> for NaN.
\<close>

record config =
  API_KEY :: jsstring
  API_BASE :: jsstring
  USER_ID :: jsstring
  AUTO_RECALL :: bool
  RECALL_LIMIT :: "int option"

definition TIMEOUT_MS :: nat where
  "TIMEOUT_MS = 30000"

text \<open>
  The arguments of \<^verbatim>\<open>apiRequest(path, options)\<close>.  A path that ends in
  \<^verbatim>\<open>?${params}\<close> is kept as the path and the entries that the \<^verbatim>\<open>URLSearchParams\<close> holds, before
  their percent-encoding.  The body is the value handed to \<^verbatim>\<open>JSON.stringify\<close>.
\<close>

record api_call =
  path :: jsstring
  query :: "(jsstring \<times> jsstring) list"
  http_method :: "jsstring option"
  body :: "jsval option"

text \<open>
  What \<^verbatim>\<open>fetch\<close> is called with.  No caller of \<^verbatim>\<open>apiRequest\<close> passes headers, so the
  headers are the two that \<^verbatim>\<open>apiRequest\<close> sets.
\<close>

record request =
  rq_url :: jsstring
  rq_query :: "(jsstring \<times> jsstring) list"
  rq_method :: "jsstring option"
  rq_headers :: "(jsstring \<times> jsstring) list"
  rq_body :: "jsval option"

text \<open>
  The response object: \<^verbatim>\<open>res.ok\<close>, \<^verbatim>\<open>res.status\<close>, the outcome of \<^verbatim>\<open>res.text()\<close> (\<open>None\<close>
  when it rejects) and the outcome of \<^verbatim>\<open>res.json()\<close>.
\<close>

record response =
  ok :: bool
  status :: nat
  text_body :: "jsstring option"
  json_body :: "js_error + jsval"

text \<open>
  \<^verbatim>\<open>fetch\<close> rejects (with an error named \<^verbatim>\<open>AbortError\<close> when the timer aborted it) or
  resolves to a response.  The network is a parameter \<open>fetch\<close> of the model.
\<close>

datatype fetch_outcome = Rejected js_error | Resolved response

definition build_request :: "config \<Rightarrow> api_call \<Rightarrow> request" where
  "build_request cfg c =
     \<lparr> rq_url = API_BASE cfg @ path c,
       rq_query = query c,
       rq_method = http_method c,
       rq_headers = [(lit ''authorization'', lit ''Bearer '' @ API_KEY cfg),
                     (lit ''Content-Type'', lit ''application/json'')],
       rq_body = body c \<rparr>"

definition apiRequest :: "config \<Rightarrow> (request \<Rightarrow> fetch_outcome) \<Rightarrow> api_call \<Rightarrow> js_error + jsval" where
  "apiRequest cfg fetch c =
     (case fetch (build_request cfg c) of
        Rejected e \<Rightarrow>
          if err_name e = lit ''AbortError''
          then Inl (Error (lit ''API timeout after '' @ show_nat TIMEOUT_MS @ lit ''ms''))
          else Inl e
      | Resolved res \<Rightarrow>
          if \<not> ok res
          then Inl (Error (lit ''API '' @ show_nat (status res) @ lit '': '' @
                     take 200 (case text_body res of None \<Rightarrow> [] | Some b \<Rightarrow> b)))
          else json_body res)"


section \<open>The tool dispatcher\<close>

text \<open>
  The result of a tool invocation, \<^verbatim>\<open>{ content: [{ type: "text", text }], isError }\<close>; an
  absent \<^verbatim>\<open>isError\<close> is \<open>False\<close>.
\<close>

record tool_result =
  result_text :: jsstring
  isError :: bool

definition success :: "jsstring \<Rightarrow> tool_result" where
  "success t = \<lparr> result_text = t, isError = False \<rparr>"

text \<open>\<^verbatim>\<open>if (result.error) throw new Error(result.error)\<close>\<close>

definition throw_if_error :: "jsval \<Rightarrow> js_error + unit" where
  "throw_if_error result =
     andThen (get_prop result (lit ''error'')) (\<lambda>err.
       if truthy err then andThen (to_string err) (\<lambda>msg. Inl (Error msg)) else Inr ())"

text \<open>\<^verbatim>\<open>params.set(k, v)\<close> on the entries of a \<^verbatim>\<open>URLSearchParams\<close>.\<close>

fun params_set :: "(jsstring \<times> jsstring) list \<Rightarrow> jsstring \<Rightarrow> jsstring \<Rightarrow> (jsstring \<times> jsstring) list" where
  "params_set [] k v = [(k, v)]"
| "params_set ((k', v') # ps) k v =
     (if k' = k then (k, v) # filter (\<lambda>(a, b). a \<noteq> k) ps else (k', v') # params_set ps k v)"

text \<open>
  \<^verbatim>\<open>m.tags?.length ? ` [${m.tags.join(", ")}]` : ""\<close> (lines 88 and 220), given \<^verbatim>\<open>m.tags\<close>.
\<close>

definition tags_suffix :: "jsval \<Rightarrow> js_error + jsstring" where
  "tags_suffix tags =
     (if truthy (opt_length tags)
      then (case tags of
              Arr ts \<Rightarrow> andThen (elem_strings ts) (\<lambda>ss. Inr (lit '' ['' @ join (lit '', '') ss @ lit '']''))
            | _ \<Rightarrow> Inl (TypeError (lit ''m.tags.join is not a function'')))
      else Inr [])"

subsection \<open>velixar_store (lines 173 to 186)\<close>

definition store_call :: "config \<Rightarrow> jsval \<Rightarrow> js_error + api_call" where
  "store_call cfg args =
     andThen (get_prop args (lit ''content'')) (\<lambda>content.
     andThen (get_prop args (lit ''tier'')) (\<lambda>tier.
     andThen (get_prop args (lit ''tags'')) (\<lambda>tags.
       Inr \<lparr> path = lit ''/memory'', query = [], http_method = Some (lit ''POST''),
             body = Some (JSON_stringify
               [(lit ''content'', content),
                (lit ''user_id'', Str (USER_ID cfg)),
                (lit ''tier'', if nullish tier then Num 2 else tier),
                (lit ''tags'', if truthy tags then tags else Arr [])]) \<rparr>)))"

definition store_render :: "jsval \<Rightarrow> js_error + tool_result" where
  "store_render result =
     andThen (throw_if_error result) (\<lambda>_.
     andThen (get_prop result (lit ''id'')) (\<lambda>rid.
       if \<not> truthy rid then Inl (Error (lit ''Store succeeded but no ID returned''))
       else andThen (to_string rid) (\<lambda>ids.
         Inr (success (check_mark @ lit '' Stored memory (id: '' @ ids @ lit '')'')))))"

definition velixar_store :: "config \<Rightarrow> (request \<Rightarrow> fetch_outcome) \<Rightarrow> jsval \<Rightarrow> js_error + tool_result" where
  "velixar_store cfg fetch args =
     andThen (store_call cfg args) (\<lambda>c. andThen (apiRequest cfg fetch c) store_render)"

subsection \<open>velixar_search (lines 188 to 201)\<close>

definition search_call :: "config \<Rightarrow> jsval \<Rightarrow> js_error + api_call" where
  "search_call cfg args =
     andThen (get_prop args (lit ''query'')) (\<lambda>q.
     andThen (to_string q) (\<lambda>qs.
     andThen (get_prop args (lit ''limit'')) (\<lambda>limit.
     andThen (if truthy limit
              then andThen (to_string limit) (\<lambda>ls.
                     Inr (params_set [(lit ''q'', toWellFormed qs),
                                      (lit ''user_id'', toWellFormed (USER_ID cfg))]
                            (lit ''limit'') (toWellFormed ls)))
              else Inr [(lit ''q'', toWellFormed qs),
                        (lit ''user_id'', toWellFormed (USER_ID cfg))]) (\<lambda>params.
       Inr \<lparr> path = lit ''/memory/search'', query = params, http_method = None, body = None \<rparr>))))"

definition search_line :: "jsval \<Rightarrow> js_error + jsstring" where
  "search_line m =
     andThen (get_prop m (lit ''content'')) (\<lambda>content.
     andThen (to_string content) (\<lambda>cs.
     andThen (get_prop m (lit ''score'')) (\<lambda>score.
     andThen (if truthy score
              then andThen (to_string score) (\<lambda>ss. Inr (lit '' (score: '' @ ss @ lit '')''))
              else Inr []) (\<lambda>suffix.
       Inr (bullet @ lit '' '' @ cs @ suffix)))))"

definition search_render :: "jsval \<Rightarrow> js_error + tool_result" where
  "search_render result =
     andThen (throw_if_error result) (\<lambda>_.
     andThen (get_prop result (lit ''memories'')) (\<lambda>memories.
       if \<not> truthy (opt_length memories) then Inr (success (lit ''No memories found.''))
       else
     andThen (array_map (lit ''result.memories'') search_line memories) (\<lambda>lines.
     andThen (get_prop result (lit ''count'')) (\<lambda>count.
     andThen (to_string count) (\<lambda>cs.
       Inr (success (lit ''Found '' @ cs @ lit '' memories:'' @ nl @ join nl lines)))))))"

definition velixar_search :: "config \<Rightarrow> (request \<Rightarrow> fetch_outcome) \<Rightarrow> jsval \<Rightarrow> js_error + tool_result" where
  "velixar_search cfg fetch args =
     andThen (search_call cfg args) (\<lambda>c. andThen (apiRequest cfg fetch c) search_render)"

subsection \<open>velixar_delete (lines 203 to 207)\<close>

definition delete_call :: "config \<Rightarrow> jsval \<Rightarrow> js_error + api_call" where
  "delete_call cfg args =
     andThen (get_prop args (lit ''id'')) (\<lambda>aid.
     andThen (to_string aid) (\<lambda>ids.
       Inr \<lparr> path = lit ''/memory/'' @ ids, query = [], http_method = Some (lit ''DELETE''),
             body = None \<rparr>))"

definition delete_render :: "jsval \<Rightarrow> jsval \<Rightarrow> js_error + tool_result" where
  "delete_render args result =
     andThen (throw_if_error result) (\<lambda>_.
     andThen (get_prop args (lit ''id'')) (\<lambda>aid.
     andThen (to_string aid) (\<lambda>ids.
       Inr (success (check_mark @ lit '' Deleted memory: '' @ ids)))))"

definition velixar_delete :: "config \<Rightarrow> (request \<Rightarrow> fetch_outcome) \<Rightarrow> jsval \<Rightarrow> js_error + tool_result" where
  "velixar_delete cfg fetch args =
     andThen (delete_call cfg args) (\<lambda>c. andThen (apiRequest cfg fetch c) (delete_render args))"

subsection \<open>velixar_list (lines 209 to 226)\<close>

definition list_call :: "config \<Rightarrow> jsval \<Rightarrow> js_error + api_call" where
  "list_call cfg args =
     andThen (get_prop args (lit ''limit'')) (\<lambda>limit.
     andThen (if truthy limit
              then andThen (to_string limit) (\<lambda>ls.
                     Inr (params_set [(lit ''user_id'', toWellFormed (USER_ID cfg))]
                            (lit ''limit'') (toWellFormed ls)))
              else Inr [(lit ''user_id'', toWellFormed (USER_ID cfg))]) (\<lambda>params1.
     andThen (get_prop args (lit ''cursor'')) (\<lambda>cursor.
     andThen (if truthy cursor
              then andThen (to_string cursor) (\<lambda>cs.
                     Inr (params_set params1 (lit ''cursor'') (toWellFormed cs)))
              else Inr params1) (\<lambda>params.
       Inr \<lparr> path = lit ''/memory/list'', query = params, http_method = None, body = None \<rparr>))))"

text \<open>
  \<^verbatim>\<open>m.content.length > 120 ? m.content.substring(0, 120) + "\<dots>" : m.content\<close>, given
  \<^verbatim>\<open>m.content\<close>: only a string has \<^verbatim>\<open>substring\<close>.
\<close>

definition preview :: "(jsstring \<Rightarrow> int \<Rightarrow> bool) \<Rightarrow> jsval \<Rightarrow> js_error + jsval" where
  "preview gt content =
     andThen (get_prop content (lit ''length'')) (\<lambda>l.
     andThen (exceeds gt l 120) (\<lambda>long.
       if long
       then (case content of
               Str s \<Rightarrow> Inr (Str (take 120 s @ ellipsis))
             | _ \<Rightarrow> Inl (TypeError (lit ''m.content.substring is not a function'')))
       else Inr content))"

definition list_line :: "(jsstring \<Rightarrow> int \<Rightarrow> bool) \<Rightarrow> jsval \<Rightarrow> js_error + jsstring" where
  "list_line gt m =
     andThen (get_prop m (lit ''tags'')) (\<lambda>tags.
     andThen (tags_suffix tags) (\<lambda>ts.
     andThen (get_prop m (lit ''content'')) (\<lambda>content.
     andThen (preview gt content) (\<lambda>p.
     andThen (get_prop m (lit ''id'')) (\<lambda>mid.
     andThen (to_string mid) (\<lambda>ids.
     andThen (to_string p) (\<lambda>ps.
       Inr (bullet @ lit '' '' @ ids @ lit '': '' @ ps @ ts))))))))"

definition list_render :: "(jsstring \<Rightarrow> int \<Rightarrow> bool) \<Rightarrow> jsval \<Rightarrow> js_error + tool_result" where
  "list_render gt result =
     andThen (throw_if_error result) (\<lambda>_.
     andThen (get_prop result (lit ''memories'')) (\<lambda>memories.
       if \<not> truthy (opt_length memories) then Inr (success (lit ''No memories found.''))
       else
     andThen (array_map (lit ''result.memories'') (list_line gt) memories) (\<lambda>lines.
     andThen (get_prop result (lit ''cursor'')) (\<lambda>rc.
     andThen (if truthy rc
              then andThen (to_string rc) (\<lambda>tok. Inr (nl @ lit ''Next cursor: '' @ tok))
              else Inr []) (\<lambda>cursor.
     andThen (get_prop result (lit ''count'')) (\<lambda>count.
     andThen (to_string count) (\<lambda>cs.
       Inr (success (cs @ lit '' memories:'' @ cursor @ nl @ join nl lines)))))))))"

definition velixar_list ::
  "(jsstring \<Rightarrow> int \<Rightarrow> bool) \<Rightarrow> config \<Rightarrow> (request \<Rightarrow> fetch_outcome) \<Rightarrow> jsval \<Rightarrow> js_error + tool_result" where
  "velixar_list gt cfg fetch args =
     andThen (list_call cfg args) (\<lambda>c. andThen (apiRequest cfg fetch c) (list_render gt))"

subsection \<open>velixar_update (lines 228 to 238)\<close>

definition update_call :: "config \<Rightarrow> jsval \<Rightarrow> js_error + api_call" where
  "update_call cfg args =
     andThen (get_prop args (lit ''content'')) (\<lambda>content.
     andThen (get_prop args (lit ''tags'')) (\<lambda>tags.
     andThen (get_prop args (lit ''id'')) (\<lambda>aid.
     andThen (to_string aid) (\<lambda>ids.
       Inr \<lparr> path = lit ''/memory/'' @ ids, query = [], http_method = Some (lit ''PATCH''),
             body = Some (JSON_stringify
               ([(lit ''user_id'', Str (USER_ID cfg))]
                @ (if truthy content then [(lit ''content'', content)] else [])
                @ (if truthy tags then [(lit ''tags'', tags)] else []))) \<rparr>))))"

definition update_render :: "jsval \<Rightarrow> jsval \<Rightarrow> js_error + tool_result" where
  "update_render args result =
     andThen (throw_if_error result) (\<lambda>_.
     andThen (get_prop args (lit ''id'')) (\<lambda>aid.
     andThen (to_string aid) (\<lambda>ids.
       Inr (success (check_mark @ lit '' Updated memory: '' @ ids)))))"

definition velixar_update :: "config \<Rightarrow> (request \<Rightarrow> fetch_outcome) \<Rightarrow> jsval \<Rightarrow> js_error + tool_result" where
  "velixar_update cfg fetch args =
     andThen (update_call cfg args) (\<lambda>c. andThen (apiRequest cfg fetch c) (update_render args))"

subsection \<open>The handler of tool invocations (lines 169 to 259)\<close>

definition primary_context_note :: jsstring where
  "primary_context_note =
     lit ''Note: Velixar MCP tools are only available in the primary agent context. ''"

definition unknown_tool :: "jsstring \<Rightarrow> tool_result" where
  "unknown_tool name =
     \<lparr> result_text = lit ''Unknown tool: '' @ name @ nl @ nl @ primary_context_note @
         lit ''If you're seeing this in a subagent, memory operations must be handled by the primary agent.'',
       isError = True \<rparr>"

text \<open>The body of the \<^verbatim>\<open>try\<close> block: the chain of \<^verbatim>\<open>if (name === ...)\<close>.\<close>

definition tool_body ::
  "(jsstring \<Rightarrow> int \<Rightarrow> bool) \<Rightarrow> config \<Rightarrow> (request \<Rightarrow> fetch_outcome) \<Rightarrow> jsstring \<Rightarrow> jsval
     \<Rightarrow> js_error + tool_result" where
  "tool_body gt cfg fetch name args =
     (if name = lit ''velixar_store'' then velixar_store cfg fetch args
      else if name = lit ''velixar_search'' then velixar_search cfg fetch args
      else if name = lit ''velixar_delete'' then velixar_delete cfg fetch args
      else if name = lit ''velixar_list'' then velixar_list gt cfg fetch args
      else if name = lit ''velixar_update'' then velixar_update cfg fetch args
      else Inr (unknown_tool name))"

definition helpText :: "jsstring \<Rightarrow> jsstring" where
  "helpText msg =
     (if includes_js msg (lit ''tool'') \<or> includes_js msg (lit ''not found'')
      then nl @ nl @ primary_context_note @
        lit ''If you're using subagents, handle memory operations in the primary agent before/after delegating other tasks.''
      else [])"

text \<open>The \<^verbatim>\<open>catch\<close> block (lines 247 to 258).\<close>

definition error_result :: "js_error \<Rightarrow> tool_result" where
  "error_result error =
     \<lparr> result_text = lit ''Error: '' @ message error @ helpText (message error), isError = True \<rparr>"

text \<open>
  The handler: \<open>Inl\<close> would be an exception that leaves the handler, \<open>Inr\<close> is a returned
  result.
\<close>

definition call_tool ::
  "(jsstring \<Rightarrow> int \<Rightarrow> bool) \<Rightarrow> config \<Rightarrow> (request \<Rightarrow> fetch_outcome) \<Rightarrow> jsstring \<Rightarrow> jsval
     \<Rightarrow> js_error + tool_result" where
  "call_tool gt cfg fetch name args =
     (case tool_body gt cfg fetch name args of
        Inr r \<Rightarrow> Inr r
      | Inl error \<Rightarrow> Inr (error_result error))"

text \<open>
  The call of \<^verbatim>\<open>apiRequest\<close> that an invocation makes, \<open>None\<close> when it makes none (an
  unknown tool, or an exception before the call).
\<close>

definition made :: "js_error + api_call \<Rightarrow> api_call option" where
  "made r = (case r of Inl e \<Rightarrow> None | Inr c \<Rightarrow> Some c)"

definition transmitted :: "config \<Rightarrow> jsstring \<Rightarrow> jsval \<Rightarrow> api_call option" where
  "transmitted cfg name args =
     (if name = lit ''velixar_store'' then made (store_call cfg args)
      else if name = lit ''velixar_search'' then made (search_call cfg args)
      else if name = lit ''velixar_delete'' then made (delete_call cfg args)
      else if name = lit ''velixar_list'' then made (list_call cfg args)
      else if name = lit ''velixar_update'' then made (update_call cfg args)
      else None)"


section \<open>The recent-memories resource\<close>

text \<open>
  The slot \<^verbatim>\<open>_recalledMemories\<close> is the only mutable state: \<^verbatim>\<open>null\<close> at first.  A function
  that may assign it takes the slot and returns the new one.
\<close>

definition initial_slot :: jsval where
  "initial_slot = Null"

definition recall_call :: "config \<Rightarrow> api_call" where
  "recall_call cfg =
     \<lparr> path = lit ''/memory/list'',
       query = [(lit ''user_id'', toWellFormed (USER_ID cfg)),
                (lit ''limit'',
                 toWellFormed (case RECALL_LIMIT cfg of None \<Rightarrow> lit ''NaN'' | Some n \<Rightarrow> show_int n))],
       http_method = None, body = None \<rparr>"

text \<open>\<^verbatim>\<open>fetchRecall\<close> (lines 58 to 67).\<close>

definition fetchRecall :: "config \<Rightarrow> (request \<Rightarrow> fetch_outcome) \<Rightarrow> jsval \<Rightarrow> jsval" where
  "fetchRecall cfg fetch slot =
     (if \<not> AUTO_RECALL cfg then slot
      else case andThen (apiRequest cfg fetch (recall_call cfg)) (\<lambda>result.
                andThen (get_prop result (lit ''memories'')) (\<lambda>ms.
                  Inr (if truthy ms then ms else Arr []))) of
             Inr v \<Rightarrow> v
           | Inl e \<Rightarrow> Arr [])"

definition recent_uri :: jsstring where
  "recent_uri = lit ''velixar://memories/recent''"

record resource =
  res_uri :: jsstring
  res_name :: jsstring
  res_description :: jsstring
  res_mimeType :: jsstring

text \<open>The handler of resource listings (lines 72 to 82).\<close>

definition list_resources :: "config \<Rightarrow> jsval \<Rightarrow> js_error + resource list" where
  "list_resources cfg slot =
     (if \<not> AUTO_RECALL cfg \<or> \<not> truthy (opt_length slot) then Inr []
      else andThen (get_prop slot (lit ''length'')) (\<lambda>l.
           andThen (to_string l) (\<lambda>ls.
             Inr [\<lparr> res_uri = recent_uri,
                    res_name = lit ''Velixar '' @ em_dash @ lit '' Recent Memories'',
                    res_description = ls @ lit '' most recent memories from your Velixar memory store'',
                    res_mimeType = lit ''text/plain'' \<rparr>])))"

definition recent_line :: "jsval \<Rightarrow> js_error + jsstring" where
  "recent_line m =
     andThen (get_prop m (lit ''tags'')) (\<lambda>tags.
     andThen (tags_suffix tags) (\<lambda>ts.
     andThen (get_prop m (lit ''tier'')) (\<lambda>tier.
     andThen (if \<not> nullish tier
              then andThen (to_string tier) (\<lambda>s. Inr (lit '' (tier '' @ s @ lit '')''))
              else Inr []) (\<lambda>tr.
     andThen (get_prop m (lit ''content'')) (\<lambda>content.
     andThen (to_string content) (\<lambda>cs.
       Inr (cs @ ts @ tr)))))))"

record resource_contents =
  rc_uri :: jsstring
  rc_mimeType :: jsstring
  rc_text :: jsstring

text \<open>
  The handler of resource reads (lines 84 to 101): the outcome, \<open>Inl\<close> for an exception that
  leaves the handler, and the slot afterwards.
\<close>

definition read_resource ::
  "config \<Rightarrow> (request \<Rightarrow> fetch_outcome) \<Rightarrow> jsval \<Rightarrow> jsstring \<Rightarrow> (js_error + resource_contents) \<times> jsval" where
  "read_resource cfg fetch slot uri =
     (if uri = recent_uri
      then let slot' = (if \<not> truthy slot then fetchRecall cfg fetch slot else slot)
           in (andThen (array_map (lit ''(_recalledMemories || [])'') recent_line
                          (if truthy slot' then slot' else Arr [])) (\<lambda>lines.
                 let t = join (nl @ lit ''---'' @ nl) lines
                 in Inr \<lparr> rc_uri = recent_uri, rc_mimeType = lit ''text/plain'',
                          rc_text = (if t \<noteq> [] then t else lit ''No memories found.'') \<rparr>),
               slot')
      else (Inl (Error (lit ''Unknown resource: '' @ uri)), slot))"

declare show_nat.simps [simp del]


section \<open>The tool registry and example inputs\<close>

text \<open>The names that the handler of tool listings declares (lines 103 to 167), in its order.\<close>

definition tool_names :: "jsstring list" where
  "tool_names = [lit ''velixar_store'', lit ''velixar_search'', lit ''velixar_delete'',
                 lit ''velixar_list'', lit ''velixar_update'']"

text \<open>
  Concrete inputs at which the theorems below are evaluated: the configuration of the test
  file, a network that is down, a network that answers every request with one response,
  and a string-to-number comparison that is never true.
\<close>

definition example_config :: config where
  "example_config =
     \<lparr> API_KEY = lit ''test-key'', API_BASE = lit ''https://api.velixarai.com'',
       USER_ID = lit ''test-user'', AUTO_RECALL = True, RECALL_LIMIT = Some 10 \<rparr>"

definition no_network :: "request \<Rightarrow> fetch_outcome" where
  "no_network rq = Rejected (TypeError (lit ''fetch failed''))"

definition respond :: "response \<Rightarrow> request \<Rightarrow> fetch_outcome" where
  "respond res rq = Resolved res"

definition no_gt :: "jsstring \<Rightarrow> int \<Rightarrow> bool" where
  "no_gt s n = False"

text \<open>A successful response with the decoded body \<open>v\<close>; its text is never read.\<close>

definition ok_json :: "jsval \<Rightarrow> response" where
  "ok_json v = \<lparr> ok = True, status = 200, text_body = None, json_body = Inr v \<rparr>"

text \<open>
  A response to a refused request: the status 400, the raw text
  \<^verbatim>\<open>{"error":"Invalid \"tier\""}\<close> and what it decodes to, whose message is
  \<^verbatim>\<open>Invalid "tier"\<close>.
\<close>

definition refusal_message :: jsstring where
  "refusal_message = lit ''Invalid '' @ [0x22] @ lit ''tier'' @ [0x22]"

definition refusal_text :: jsstring where
  "refusal_text =
     lit ''{'' @ [0x22] @ lit ''error'' @ [0x22] @ lit '':'' @ [0x22] @
     lit ''Invalid '' @ [0x5C, 0x22] @ lit ''tier'' @ [0x5C, 0x22] @ [0x22] @ lit ''}''"

definition refusal :: response where
  "refusal =
     \<lparr> ok = False, status = 400, text_body = Some refusal_text,
       json_body = Inr (Obj [(lit ''error'', Str refusal_message)]) \<rparr>"

text \<open>A response to a store request that reports no error: \<^verbatim>\<open>{"id":"m1","error":null}\<close>.\<close>

definition stored_without_error :: response where
  "stored_without_error = ok_json (Obj [(lit ''id'', Str (lit ''m1'')), (lit ''error'', Null)])"

text \<open>
  A page of a listing that continues:
  \<^verbatim>\<open>{"memories":[{"id":"a","content":"b"}],"count":1,"cursor":"tok"}\<close>.
\<close>

definition page_with_cursor :: jsval where
  "page_with_cursor =
     Obj [(lit ''memories'', Arr [Obj [(lit ''id'', Str (lit ''a'')), (lit ''content'', Str (lit ''b''))]]),
          (lit ''count'', Num 1),
          (lit ''cursor'', Str (lit ''tok''))]"

text \<open>An empty page that still names a cursor: \<^verbatim>\<open>{"memories":[],"count":0,"cursor":"tok"}\<close>.\<close>

definition empty_page_with_cursor :: jsval where
  "empty_page_with_cursor =
     Obj [(lit ''memories'', Arr []), (lit ''count'', Num 0), (lit ''cursor'', Str (lit ''tok''))]"

text \<open>A failure of the server that is not JSON.\<close>

definition server_error :: response where
  "server_error =
     \<lparr> ok = False, status = 500, text_body = Some (lit ''Internal Server Error''),
       json_body = Inl (Err (lit ''SyntaxError'') (lit ''Unexpected token'')) \<rparr>"

text \<open>The configuration with \<^verbatim>\<open>VELIXAR_AUTO_RECALL=false\<close>.\<close>

definition recall_off :: config where
  "recall_off = example_config \<lparr> AUTO_RECALL := False \<rparr>"

section \<open>Basic facts\<close>

lemma code_unit_inj: "(of_nat (of_char c) :: 16 word) = of_nat (of_char d) \<longleftrightarrow> c = d"
proof
  assume eq: "(of_nat (of_char c) :: 16 word) = of_nat (of_char d)"
  have lt: "(of_char x :: nat) < 2 ^ 16" for x :: char
  proof -
    have "(of_char x :: nat) < 256" by (rule nat_of_char_less_256)
    also have "(256 :: nat) < 2 ^ 16" by simp
    finally show ?thesis .
  qed
  from eq have "unat (of_nat (of_char c) :: 16 word) = unat (of_nat (of_char d) :: 16 word)"
    by simp
  then have "(of_char c :: nat) = of_char d"
    using lt [of c] lt [of d] by (simp add: unat_of_nat)
  then show "c = d" by simp
qed simp

lemma lit_eq_iff [simp]: "lit s = lit t \<longleftrightarrow> s = t"
proof -
  have "inj (\<lambda>c. of_nat (of_char c) :: 16 word)"
    by (rule injI) (simp add: code_unit_inj)
  then show ?thesis
    by (simp add: lit_def inj_map_eq_map)
qed

lemma lit_eq_Nil [simp]: "lit s = [] \<longleftrightarrow> s = []"
  by (simp add: lit_def)

lemma length_lit [simp]: "length (lit s) = length s"
  by (simp add: lit_def)

lemma opt_length_Arr [simp]: "opt_length (Arr xs) = Num (int (length xs))"
  by (simp add: opt_length_def)

lemma opt_length_Undefined [simp]: "opt_length Undefined = Undefined"
  by (simp add: opt_length_def)

lemma opt_length_Null [simp]: "opt_length Null = Undefined"
  by (simp add: opt_length_def)

lemma code_unit_small: "(of_nat (of_char c) :: 16 word) < 0x100"
proof -
  have a: "(of_char c :: nat) mod 65536 \<le> of_char c"
    by (rule mod_less_eq_dividend)
  have b: "(of_char c :: nat) < 256"
    by (rule nat_of_char_less_256)
  from a b have "(of_char c :: nat) mod 65536 < 256"
    by (rule le_less_trans)
  then show ?thesis
    by (simp add: word_less_nat_alt unat_of_nat)
qed

lemma small_no_surrogate:
  fixes x :: "16 word"
  assumes "x < 0x100"
  shows "\<not> high_surrogate x \<and> \<not> low_surrogate x"
  using assms
  by (auto simp add: high_surrogate_def low_surrogate_def word_le_nat_alt word_less_nat_alt)

lemma toWellFormed_no_surrogate:
  "\<forall>x \<in> set s. \<not> high_surrogate x \<and> \<not> low_surrogate x \<Longrightarrow> toWellFormed s = s"
  by (induction s rule: toWellFormed.induct) simp_all

lemma toWellFormed_lit [simp]: "toWellFormed (lit s) = lit s"
proof (rule toWellFormed_no_surrogate, rule ballI)
  fix x
  assume "x \<in> set (lit s)"
  then obtain c where "x = of_nat (of_char c)"
    by (auto simp add: lit_def)
  then have "x < 0x100"
    by (simp add: code_unit_small)
  then show "\<not> high_surrogate x \<and> \<not> low_surrogate x"
    by (rule small_no_surrogate)
qed

lemma andThen_Inl [simp]: "andThen (Inl e) f = Inl e"
  by (simp add: andThen_def)

lemma andThen_Inr [simp]: "andThen (Inr x) f = f x"
  by (simp add: andThen_def)

lemma made_Some: "made r = Some c \<longleftrightarrow> r = Inr c"
  by (cases r) (simp_all add: made_def)

lemma tool_body_store:
  "tool_body gt cfg fetch (lit ''velixar_store'') args = velixar_store cfg fetch args"
  by (simp add: tool_body_def)

lemma tool_body_search:
  "tool_body gt cfg fetch (lit ''velixar_search'') args = velixar_search cfg fetch args"
  by (simp add: tool_body_def)

lemma tool_body_delete:
  "tool_body gt cfg fetch (lit ''velixar_delete'') args = velixar_delete cfg fetch args"
  by (simp add: tool_body_def)

lemma tool_body_list:
  "tool_body gt cfg fetch (lit ''velixar_list'') args = velixar_list gt cfg fetch args"
  by (simp add: tool_body_def)

lemma tool_body_update:
  "tool_body gt cfg fetch (lit ''velixar_update'') args = velixar_update cfg fetch args"
  by (simp add: tool_body_def)

lemma transmitted_store:
  "transmitted cfg (lit ''velixar_store'') args = made (store_call cfg args)"
  by (simp add: transmitted_def)

lemma transmitted_search:
  "transmitted cfg (lit ''velixar_search'') args = made (search_call cfg args)"
  by (simp add: transmitted_def)

lemma transmitted_delete:
  "transmitted cfg (lit ''velixar_delete'') args = made (delete_call cfg args)"
  by (simp add: transmitted_def)

lemma transmitted_list:
  "transmitted cfg (lit ''velixar_list'') args = made (list_call cfg args)"
  by (simp add: transmitted_def)

lemma transmitted_update:
  "transmitted cfg (lit ''velixar_update'') args = made (update_call cfg args)"
  by (simp add: transmitted_def)


lemma andThen_eq_Inr: "andThen m f = Inr y \<longleftrightarrow> (\<exists>x. m = Inr x \<and> f x = Inr y)"
  by (cases m) simp_all

lemma message_Error [simp]: "message (Error msg) = msg"
  by (simp add: Error_def)

lemma map_of_remove_key:
  "map_of (filter (\<lambda>p. fst p \<noteq> k) a) k' = (if k' = k then None else map_of a k')"
  by (induction a) auto

lemma throw_if_error_truthy:
  "get_prop v (lit ''error'') = Inr e \<Longrightarrow> truthy e \<Longrightarrow> to_string e = Inr msg \<Longrightarrow>
   throw_if_error v = Inl (Error msg)"
  by (simp add: throw_if_error_def)

lemma throw_if_error_falsy:
  "get_prop v (lit ''error'') = Inr e \<Longrightarrow> \<not> truthy e \<Longrightarrow> throw_if_error v = Inr ()"
  by (simp add: throw_if_error_def)

lemma apiRequest_ok:
  "fetch (build_request cfg c) = Resolved res \<Longrightarrow> ok res \<Longrightarrow> apiRequest cfg fetch c = json_body res"
  by (simp add: apiRequest_def)

lemma apiRequest_not_ok:
  "fetch (build_request cfg c) = Resolved res \<Longrightarrow> \<not> ok res \<Longrightarrow>
   apiRequest cfg fetch c =
     Inl (Error (lit ''API '' @ show_nat (status res) @ lit '': '' @
            take 200 (case text_body res of None \<Rightarrow> [] | Some b \<Rightarrow> b)))"
  by (simp add: apiRequest_def)

lemma apiRequest_respond_ok_json [simp]:
  "apiRequest cfg (respond (ok_json v)) c = Inr v"
  by (simp add: apiRequest_def respond_def ok_json_def)

text \<open>
  Every branch of the dispatcher hands the call it built to \<^verbatim>\<open>apiRequest\<close> and starts the
  treatment of the decoded response with the test of its \<^verbatim>\<open>error\<close> field.
\<close>

lemma tool_body_transmitted:
  assumes "name \<in> set tool_names" and "transmitted cfg name args = Some c"
  shows "\<exists>render. tool_body gt cfg fetch name args = andThen (apiRequest cfg fetch c) render \<and>
           (\<forall>v. render v = andThen (throw_if_error v) (\<lambda>u. render v))"
proof -
  consider "name = lit ''velixar_store''" | "name = lit ''velixar_search''"
    | "name = lit ''velixar_delete''" | "name = lit ''velixar_list''" | "name = lit ''velixar_update''"
    using assms(1) by (auto simp add: tool_names_def)
  then show ?thesis
  proof cases
    case 1
    with assms(2) have "store_call cfg args = Inr c"
      by (simp add: transmitted_store made_Some)
    then have "tool_body gt cfg fetch name args = andThen (apiRequest cfg fetch c) store_render"
      by (simp add: 1 tool_body_store velixar_store_def)
    moreover have "store_render v = andThen (throw_if_error v) (\<lambda>u. store_render v)" for v
      by (cases "throw_if_error v") (simp_all add: store_render_def)
    ultimately show ?thesis by blast
  next
    case 2
    with assms(2) have "search_call cfg args = Inr c"
      by (simp add: transmitted_search made_Some)
    then have "tool_body gt cfg fetch name args = andThen (apiRequest cfg fetch c) search_render"
      by (simp add: 2 tool_body_search velixar_search_def)
    moreover have "search_render v = andThen (throw_if_error v) (\<lambda>u. search_render v)" for v
      by (cases "throw_if_error v") (simp_all add: search_render_def)
    ultimately show ?thesis by blast
  next
    case 3
    with assms(2) have "delete_call cfg args = Inr c"
      by (simp add: transmitted_delete made_Some)
    then have "tool_body gt cfg fetch name args = andThen (apiRequest cfg fetch c) (delete_render args)"
      by (simp add: 3 tool_body_delete velixar_delete_def)
    moreover have "delete_render args v = andThen (throw_if_error v) (\<lambda>u. delete_render args v)" for v
      by (cases "throw_if_error v") (simp_all add: delete_render_def)
    ultimately show ?thesis by blast
  next
    case 4
    with assms(2) have "list_call cfg args = Inr c"
      by (simp add: transmitted_list made_Some)
    then have "tool_body gt cfg fetch name args = andThen (apiRequest cfg fetch c) (list_render gt)"
      by (simp add: 4 tool_body_list velixar_list_def)
    moreover have "list_render gt v = andThen (throw_if_error v) (\<lambda>u. list_render gt v)" for v
      by (cases "throw_if_error v") (simp_all add: list_render_def)
    ultimately show ?thesis by blast
  next
    case 5
    with assms(2) have "update_call cfg args = Inr c"
      by (simp add: transmitted_update made_Some)
    then have "tool_body gt cfg fetch name args = andThen (apiRequest cfg fetch c) (update_render args)"
      by (simp add: 5 tool_body_update velixar_update_def)
    moreover have "update_render args v = andThen (throw_if_error v) (\<lambda>u. update_render args v)" for v
      by (cases "throw_if_error v") (simp_all add: update_render_def)
    ultimately show ?thesis by blast
  qed
qed

lemma update_call_Obj:
  "update_call cfg (Obj a) = Inr c \<longleftrightarrow>
     (\<exists>ids. to_string (case map_of a (lit ''id'') of None \<Rightarrow> Undefined | Some v \<Rightarrow> v) = Inr ids \<and>
        c = \<lparr> path = lit ''/memory/'' @ ids, query = [], http_method = Some (lit ''PATCH''),
              body = Some (Obj
                ([(lit ''user_id'', Str (USER_ID cfg))]
                 @ (case map_of a (lit ''content'') of None \<Rightarrow> []
                    | Some v \<Rightarrow> if truthy v then [(lit ''content'', v)] else [])
                 @ (case map_of a (lit ''tags'') of None \<Rightarrow> []
                    | Some v \<Rightarrow> if truthy v then [(lit ''tags'', v)] else []))) \<rparr>)"
  by (auto simp add: update_call_def JSON_stringify_def andThen_eq_Inr split: option.splits)

section \<open>The store tool\<close>



section \<open>The update tool\<close>

text \<open>
  C4.  The PATCH body of an update invocation holds the user scope and, of \<^verbatim>\<open>content\<close> and
  \<^verbatim>\<open>tags\<close>, only what the arguments supply, with the supplied value: a field that the
  arguments omit is no key of the body, so it is not sent as \<^verbatim>\<open>null\<close> either.  The
  transmitted call \<open>c\<close> is the one the handler passes to \<^verbatim>\<open>apiRequest\<close>.
\<close>

theorem update_transmits_only_supplied:
  assumes "transmitted cfg (lit ''velixar_update'') (Obj a) = Some c"
  shows "\<exists>props.
           tool_body gt cfg fetch (lit ''velixar_update'') (Obj a) =
             andThen (apiRequest cfg fetch c) (update_render (Obj a)) \<and>
           http_method c = Some (lit ''PATCH'') \<and> body c = Some (Obj props) \<and>
           (\<forall>k v. (k, v) \<in> set props \<longrightarrow>
              (k = lit ''user_id'' \<and> v = Str (USER_ID cfg)) \<or>
              ((k = lit ''content'' \<or> k = lit ''tags'') \<and> map_of a k = Some v)) \<and>
           (map_of a (lit ''content'') = None \<longrightarrow> lit ''content'' \<notin> fst ` set props) \<and>
           (map_of a (lit ''tags'') = None \<longrightarrow> lit ''tags'' \<notin> fst ` set props)"
proof -
  from assms have call: "update_call cfg (Obj a) = Inr c"
    by (simp add: transmitted_update made_Some)
  then have "tool_body gt cfg fetch (lit ''velixar_update'') (Obj a) =
      andThen (apiRequest cfg fetch c) (update_render (Obj a))"
    by (simp add: tool_body_update velixar_update_def)
  with call show ?thesis
    unfolding update_call_Obj
    by (auto split: option.splits if_splits)
qed

theorem update_transmits_only_supplied_witness:
  "\<exists>c props.
     transmitted example_config (lit ''velixar_update'')
       (Obj [(lit ''id'', Str (lit ''up-123'')), (lit ''tags'', Arr [Str (lit ''x'')])]) = Some c \<and>
     body c = Some (Obj props) \<and>
     props = [(lit ''user_id'', Str (lit ''test-user'')), (lit ''tags'', Arr [Str (lit ''x'')])] \<and>
     lit ''content'' \<notin> fst ` set props"
proof -
  let ?a = "[(lit ''id'', Str (lit ''up-123'')), (lit ''tags'', Arr [Str (lit ''x'')])]"
  let ?c = "\<lparr> path = lit ''/memory/'' @ lit ''up-123'', query = [], http_method = Some (lit ''PATCH''),
              body = Some (Obj [(lit ''user_id'', Str (lit ''test-user'')), (lit ''tags'', Arr [Str (lit ''x'')])]) \<rparr>"
  have t: "transmitted example_config (lit ''velixar_update'') (Obj ?a) = Some ?c"
    by (simp add: transmitted_update made_def update_call_def JSON_stringify_def example_config_def)
  from update_transmits_only_supplied [OF t, of no_gt no_network] t show ?thesis
    by auto
qed



section \<open>Errors at the dispatch boundary\<close>

text \<open>
  C2, as the code has it.  Take an invocation of one of the five tools that transmits its
  request and receives a response.  If the status is a success and the decoded body has a
  truthy \<^verbatim>\<open>error\<close> field, the result is flagged and its text is \<^verbatim>\<open>Error: \<close> followed by
  the string of that field (and the hint, when the message calls for it), so the text
  contains the message.  If the status is not a success, the result is flagged too, and its
  text carries the status and the first 200 code units of the raw body; the body is not
  decoded.
\<close>

theorem error_field_is_flagged:
  assumes "name \<in> set tool_names"
    and "transmitted cfg name args = Some c"
    and "fetch (build_request cfg c) = Resolved res"
  shows "(ok res \<and> json_body res = Inr v \<and> get_prop v (lit ''error'') = Inr e \<and> truthy e \<and>
            to_string e = Inr msg \<longrightarrow>
          call_tool gt cfg fetch name args =
            Inr \<lparr> result_text = lit ''Error: '' @ msg @ helpText msg, isError = True \<rparr> \<and>
          includes_js (lit ''Error: '' @ msg @ helpText msg) msg) \<and>
         (\<not> ok res \<longrightarrow>
          call_tool gt cfg fetch name args =
            Inr (error_result (Error (lit ''API '' @ show_nat (status res) @ lit '': '' @
                   take 200 (case text_body res of None \<Rightarrow> [] | Some b \<Rightarrow> b)))))"
proof -
  from tool_body_transmitted [OF assms(1,2)] obtain render where
    body: "tool_body gt cfg fetch name args = andThen (apiRequest cfg fetch c) render" and
    first: "\<And>v. render v = andThen (throw_if_error v) (\<lambda>u. render v)"
    by blast
  show ?thesis
  proof (intro conjI impI)
    assume h: "ok res \<and> json_body res = Inr v \<and> get_prop v (lit ''error'') = Inr e \<and> truthy e \<and>
            to_string e = Inr msg"
    then have "apiRequest cfg fetch c = Inr v"
      using apiRequest_ok [of fetch cfg c res] assms(3) by simp
    moreover from h have "throw_if_error v = Inl (Error msg)"
      by (simp add: throw_if_error_truthy)
    then have "render v = Inl (Error msg)"
      using first [of v] by simp
    ultimately have "tool_body gt cfg fetch name args = Inl (Error msg)"
      by (simp add: body)
    then show "call_tool gt cfg fetch name args =
        Inr \<lparr> result_text = lit ''Error: '' @ msg @ helpText msg, isError = True \<rparr>"
      by (simp add: call_tool_def error_result_def)
    show "includes_js (lit ''Error: '' @ msg @ helpText msg) msg"
      unfolding includes_js_def by (rule sublist_appendI)
  next
    assume "\<not> ok res"
    then have "tool_body gt cfg fetch name args =
        Inl (Error (lit ''API '' @ show_nat (status res) @ lit '': '' @
                   take 200 (case text_body res of None \<Rightarrow> [] | Some b \<Rightarrow> b)))"
      using apiRequest_not_ok [of fetch cfg c res] assms(3) by (simp add: body)
    then show "call_tool gt cfg fetch name args =
            Inr (error_result (Error (lit ''API '' @ show_nat (status res) @ lit '': '' @
                   take 200 (case text_body res of None \<Rightarrow> [] | Some b \<Rightarrow> b))))"
      by (simp add: call_tool_def)
  qed
qed

theorem error_field_is_flagged_witness:
  "call_tool no_gt example_config (respond (ok_json (Obj [(lit ''error'', Str (lit ''bad request''))])))
     (lit ''velixar_store'') (Obj [(lit ''content'', Str (lit ''fail''))]) =
   Inr \<lparr> result_text = lit ''Error: '' @ lit ''bad request'', isError = True \<rparr> \<and>
   call_tool no_gt example_config (respond refusal)
     (lit ''velixar_store'') (Obj [(lit ''content'', Str (lit ''fail''))]) =
   Inr \<lparr> result_text = lit ''Error: '' @ lit ''API '' @ show_nat 400 @ lit '': '' @ refusal_text,
         isError = True \<rparr>"
proof -
  let ?args = "Obj [(lit ''content'', Str (lit ''fail''))]"
  let ?c = "\<lparr> path = lit ''/memory'', query = [], http_method = Some (lit ''POST''),
              body = Some (Obj [(lit ''content'', Str (lit ''fail'')), (lit ''user_id'', Str (lit ''test-user'')),
                (lit ''tier'', Num 2), (lit ''tags'', Arr [])]) \<rparr>"
  let ?v = "Obj [(lit ''error'', Str (lit ''bad request''))]"
  have n: "lit ''velixar_store'' \<in> set tool_names"
    by (simp add: tool_names_def)
  have t: "transmitted example_config (lit ''velixar_store'') ?args = Some ?c"
    by (simp add: transmitted_store made_def store_call_def JSON_stringify_def example_config_def)
  have f1: "respond (ok_json ?v) (build_request example_config ?c) = Resolved (ok_json ?v)"
    by (simp add: respond_def)
  have f2: "respond refusal (build_request example_config ?c) = Resolved refusal"
    by (simp add: respond_def)
  have q: "helpText (lit ''bad request'') = []"
    by (simp add: helpText_def includes_js_def lit_def sublist_code)
  have h1: "ok (ok_json ?v) \<and> json_body (ok_json ?v) = Inr ?v \<and>
      get_prop ?v (lit ''error'') = Inr (Str (lit ''bad request'')) \<and> truthy (Str (lit ''bad request'')) \<and>
      to_string (Str (lit ''bad request'')) = Inr (lit ''bad request'')"
    by (simp add: ok_json_def)
  have h2: "\<not> ok refusal"
    by (simp add: refusal_def)
  have b: "take 200 refusal_text = refusal_text"
    by (simp add: refusal_text_def lit_def)
  have q2: "helpText (lit ''API '' @ show_nat 400 @ lit '': '' @ refusal_text) = []"
    by (simp add: helpText_def includes_js_def lit_def refusal_text_def sublist_code show_nat.simps)
  from error_field_is_flagged [where name = "lit ''velixar_store''" and cfg = example_config
      and args = ?args and c = ?c and fetch = "respond (ok_json ?v)" and res = "ok_json ?v"
      and v = ?v and e = "Str (lit ''bad request'')" and msg = "lit ''bad request''" and gt = no_gt]
    n t f1 h1 q
  have "call_tool no_gt example_config (respond (ok_json ?v)) (lit ''velixar_store'') ?args =
      Inr \<lparr> result_text = lit ''Error: '' @ lit ''bad request'', isError = True \<rparr>"
    by simp
  moreover
  from error_field_is_flagged [where name = "lit ''velixar_store''" and cfg = example_config
      and args = ?args and c = ?c and fetch = "respond refusal" and res = refusal
      and v = ?v and e = "Str (lit ''bad request'')" and msg = "lit ''bad request''" and gt = no_gt]
    n t f2 h2
  have "call_tool no_gt example_config (respond refusal) (lit ''velixar_store'') ?args =
      Inr \<lparr> result_text = lit ''Error: '' @ lit ''API '' @ show_nat 400 @ lit '': '' @ refusal_text,
            isError = True \<rparr>"
    using b q2 by (simp add: error_result_def refusal_def)
  ultimately show ?thesis by simp
qed

text \<open>
  C2 as stated fails in two ways.  A falsy \<^verbatim>\<open>error\<close> field on a successful response is no
  error: the store invocation succeeds.  And on a status that is not a success the text
  holds the raw body, where the message is escaped: the decoded message is not in the text.
\<close>

theorem error_field_not_always_flagged:
  "call_tool no_gt example_config (respond stored_without_error)
     (lit ''velixar_store'') (Obj [(lit ''content'', Str (lit ''note''))]) =
   Inr \<lparr> result_text = check_mark @ lit '' Stored memory (id: '' @ lit ''m1'' @ lit '')'',
         isError = False \<rparr> \<and>
   json_body stored_without_error = Inr (Obj [(lit ''id'', Str (lit ''m1'')), (lit ''error'', Null)]) \<and>
   call_tool no_gt example_config (respond refusal)
     (lit ''velixar_delete'') (Obj [(lit ''id'', Str (lit ''m1''))]) =
   Inr \<lparr> result_text = lit ''Error: '' @ lit ''API '' @ show_nat 400 @ lit '': '' @ refusal_text,
         isError = True \<rparr> \<and>
   json_body refusal = Inr (Obj [(lit ''error'', Str refusal_message)]) \<and>
   \<not> includes_js (lit ''Error: '' @ lit ''API '' @ show_nat 400 @ lit '': '' @ refusal_text) refusal_message"
proof (intro conjI)
  show "call_tool no_gt example_config (respond stored_without_error)
     (lit ''velixar_store'') (Obj [(lit ''content'', Str (lit ''note''))]) =
   Inr \<lparr> result_text = check_mark @ lit '' Stored memory (id: '' @ lit ''m1'' @ lit '')'',
         isError = False \<rparr>"
    by (simp add: call_tool_def tool_body_store velixar_store_def store_call_def stored_without_error_def
        store_render_def throw_if_error_def success_def)
  show "json_body stored_without_error = Inr (Obj [(lit ''id'', Str (lit ''m1'')), (lit ''error'', Null)])"
    by (simp add: stored_without_error_def ok_json_def)
  have b: "take 200 refusal_text = refusal_text"
    by (simp add: refusal_text_def lit_def)
  have q2: "helpText (lit ''API '' @ show_nat 400 @ lit '': '' @ refusal_text) = []"
    by (simp add: helpText_def includes_js_def lit_def refusal_text_def sublist_code show_nat.simps)
  have "apiRequest example_config (respond refusal) c =
      Inl (Error (lit ''API '' @ show_nat 400 @ lit '': '' @ refusal_text))" for c
    using b by (simp add: apiRequest_def respond_def refusal_def)
  then show "call_tool no_gt example_config (respond refusal)
     (lit ''velixar_delete'') (Obj [(lit ''id'', Str (lit ''m1''))]) =
   Inr \<lparr> result_text = lit ''Error: '' @ lit ''API '' @ show_nat 400 @ lit '': '' @ refusal_text,
         isError = True \<rparr>"
    using q2 by (simp add: call_tool_def tool_body_delete velixar_delete_def delete_call_def error_result_def)
  show "json_body refusal = Inr (Obj [(lit ''error'', Str refusal_message)])"
    by (simp add: refusal_def)
  show "\<not> includes_js (lit ''Error: '' @ lit ''API '' @ show_nat 400 @ lit '': '' @ refusal_text) refusal_message"
    by (simp add: includes_js_def refusal_text_def refusal_message_def lit_def sublist_code show_nat.simps)
qed

text \<open>
  C3.  The handler of tool invocations returns a result for every request, whatever the
  network does: the result of the \<^verbatim>\<open>try\<close> block when that returns one (the unknown-tool
  result among them), and a flagged result in every other case.
\<close>

theorem call_tool_never_throws:
  "\<exists>r. call_tool gt cfg fetch name args = Inr r \<and>
        (tool_body gt cfg fetch name args = Inr r \<or> isError r)"
  by (cases "tool_body gt cfg fetch name args") (simp_all add: call_tool_def error_result_def)

section \<open>Listing and searching\<close>

lemma list_render_items:
  assumes "get_prop v (lit ''error'') = Inr e" and "\<not> truthy e"
    and "get_prop v (lit ''memories'') = Inr (Arr ms)" and "ms \<noteq> []"
    and "mapE (list_line gt) ms = Inr lines"
    and "get_prop v (lit ''cursor'') = Inr rc"
    and "get_prop v (lit ''count'') = Inr n" and "to_string n = Inr cs"
  shows "list_render gt v =
     andThen (if truthy rc
              then andThen (to_string rc) (\<lambda>tok. Inr (nl @ lit ''Next cursor: '' @ tok))
              else Inr []) (\<lambda>cursor.
       Inr (success (cs @ lit '' memories:'' @ cursor @ nl @ join nl lines)))"
  using assms by (simp add: list_render_def throw_if_error_falsy array_map_def)

text \<open>
  C5, as the code has it.  Take a list invocation whose decoded response reports no error
  and has a non-empty \<^verbatim>\<open>memories\<close> array whose items render to \<open>lines\<close>.  If the response
  has a truthy cursor, the text is the count line, then the line \<^verbatim>\<open>Next cursor: \<close> with the
  token, then the item lines: the cursor line is the second line, before the items.  If the
  response has no cursor (or a falsy one), the text is the count line followed by the item
  lines, and nothing else.
\<close>

theorem list_next_cursor_line:
  assumes "transmitted cfg (lit ''velixar_list'') args = Some c"
    and "apiRequest cfg fetch c = Inr v"
    and "get_prop v (lit ''error'') = Inr e" and "\<not> truthy e"
    and "get_prop v (lit ''memories'') = Inr (Arr ms)" and "ms \<noteq> []"
    and "mapE (list_line gt) ms = Inr lines"
    and "get_prop v (lit ''count'') = Inr n" and "to_string n = Inr cs"
    and "get_prop v (lit ''cursor'') = Inr rc"
  shows "(truthy rc \<and> to_string rc = Inr tok \<longrightarrow>
            call_tool gt cfg fetch (lit ''velixar_list'') args =
              Inr (success (cs @ lit '' memories:'' @ nl @ lit ''Next cursor: '' @ tok @ nl @ join nl lines))) \<and>
         (\<not> truthy rc \<longrightarrow>
            call_tool gt cfg fetch (lit ''velixar_list'') args =
              Inr (success (cs @ lit '' memories:'' @ nl @ join nl lines)))"
proof -
  from assms(1) have "list_call cfg args = Inr c"
    by (simp add: transmitted_list made_Some)
  with assms(2) have "tool_body gt cfg fetch (lit ''velixar_list'') args = list_render gt v"
    by (simp add: tool_body_list velixar_list_def)
  then have "call_tool gt cfg fetch (lit ''velixar_list'') args =
      (case list_render gt v of Inr r \<Rightarrow> Inr r | Inl error \<Rightarrow> Inr (error_result error))"
    by (simp add: call_tool_def)
  then show ?thesis
    unfolding list_render_items [OF assms(3,4,5,6,7,10,8,9)]
    by simp
qed

theorem list_next_cursor_line_witness:
  "call_tool no_gt example_config (respond (ok_json page_with_cursor)) (lit ''velixar_list'') (Obj []) =
   Inr (success (show_int 1 @ lit '' memories:'' @ nl @ lit ''Next cursor: '' @ lit ''tok'' @ nl @
          join nl [bullet @ lit '' '' @ lit ''a'' @ lit '': '' @ lit ''b'']))"
proof -
  let ?c = "\<lparr> path = lit ''/memory/list'', query = [(lit ''user_id'', lit ''test-user'')],
              http_method = None, body = None \<rparr>"
  have t: "transmitted example_config (lit ''velixar_list'') (Obj []) = Some ?c"
    by (simp add: transmitted_list made_def list_call_def example_config_def)
  have a: "apiRequest example_config (respond (ok_json page_with_cursor)) ?c = Inr page_with_cursor"
    by simp
  have e: "get_prop page_with_cursor (lit ''error'') = Inr Undefined"
    by (simp add: page_with_cursor_def)
  have f: "\<not> truthy Undefined"
    by simp
  have m: "get_prop page_with_cursor (lit ''memories'') =
      Inr (Arr [Obj [(lit ''id'', Str (lit ''a'')), (lit ''content'', Str (lit ''b''))]])"
    by (simp add: page_with_cursor_def)
  have ne: "[Obj [(lit ''id'', Str (lit ''a'')), (lit ''content'', Str (lit ''b''))]] \<noteq> []"
    by simp
  have l: "mapE (list_line no_gt) [Obj [(lit ''id'', Str (lit ''a'')), (lit ''content'', Str (lit ''b''))]] =
      Inr [bullet @ lit '' '' @ lit ''a'' @ lit '': '' @ lit ''b'']"
    by (simp add: list_line_def tags_suffix_def preview_def)
  have n: "get_prop page_with_cursor (lit ''count'') = Inr (Num 1)"
    by (simp add: page_with_cursor_def)
  have s: "to_string (Num 1) = Inr (show_int 1)"
    by simp
  have k: "get_prop page_with_cursor (lit ''cursor'') = Inr (Str (lit ''tok''))"
    by (simp add: page_with_cursor_def)
  have "truthy (Str (lit ''tok'')) \<and> to_string (Str (lit ''tok'')) = Inr (lit ''tok'')"
    by simp
  with list_next_cursor_line [where fetch = "respond (ok_json page_with_cursor)" and tok = "lit ''tok''",
      OF t a e f m ne l n s k]
  show ?thesis
    by blast
qed

text \<open>
  C5 as stated fails: with one memory and the cursor \<^verbatim>\<open>tok\<close> the text is the three lines
  \<^verbatim>\<open>1 memories:\<close>, \<^verbatim>\<open>Next cursor: tok\<close> and the item, so the cursor line does not end the
  text; and an empty page that names a cursor gives the placeholder, with no cursor line.
\<close>

theorem next_cursor_line_not_trailing:
  "call_tool no_gt example_config (respond (ok_json page_with_cursor)) (lit ''velixar_list'') (Obj []) =
   Inr (success (lit ''1 memories:'' @ nl @ lit ''Next cursor: tok'' @ nl @ bullet @ lit '' a: b'')) \<and>
   \<not> suffix (nl @ lit ''Next cursor: tok'')
       (lit ''1 memories:'' @ nl @ lit ''Next cursor: tok'' @ nl @ bullet @ lit '' a: b'') \<and>
   call_tool no_gt example_config (respond (ok_json empty_page_with_cursor)) (lit ''velixar_list'') (Obj []) =
   Inr (success (lit ''No memories found.'')) \<and>
   \<not> includes_js (lit ''No memories found.'') (lit ''Next cursor: tok'')"
proof (intro conjI)
  have "call_tool no_gt example_config (respond (ok_json page_with_cursor)) (lit ''velixar_list'') (Obj []) =
   Inr (success (show_int 1 @ lit '' memories:'' @ nl @ lit ''Next cursor: '' @ lit ''tok'' @ nl @
          join nl [bullet @ lit '' '' @ lit ''a'' @ lit '': '' @ lit ''b'']))"
    by (simp add: call_tool_def tool_body_list velixar_list_def list_call_def list_render_def
        throw_if_error_def page_with_cursor_def array_map_def list_line_def tags_suffix_def preview_def)
  also have "show_int 1 @ lit '' memories:'' @ nl @ lit ''Next cursor: '' @ lit ''tok'' @ nl @
          join nl [bullet @ lit '' '' @ lit ''a'' @ lit '': '' @ lit ''b''] =
      lit ''1 memories:'' @ nl @ lit ''Next cursor: tok'' @ nl @ bullet @ lit '' a: b''"
    by (simp add: lit_def show_int_def show_nat.simps)
  finally show "call_tool no_gt example_config (respond (ok_json page_with_cursor)) (lit ''velixar_list'') (Obj []) =
   Inr (success (lit ''1 memories:'' @ nl @ lit ''Next cursor: tok'' @ nl @ bullet @ lit '' a: b''))" .
  show "\<not> suffix (nl @ lit ''Next cursor: tok'')
       (lit ''1 memories:'' @ nl @ lit ''Next cursor: tok'' @ nl @ bullet @ lit '' a: b'')"
    by (simp add: suffix_to_prefix lit_def nl_def bullet_def)
  show "call_tool no_gt example_config (respond (ok_json empty_page_with_cursor)) (lit ''velixar_list'') (Obj []) =
   Inr (success (lit ''No memories found.''))"
    by (simp add: call_tool_def tool_body_list velixar_list_def list_call_def list_render_def
        throw_if_error_def empty_page_with_cursor_def)
  show "\<not> includes_js (lit ''No memories found.'') (lit ''Next cursor: tok'')"
    by (simp add: includes_js_def lit_def sublist_code)
qed

text \<open>
  C6, as the code has it.  When a search or list invocation receives a decoded response
  that reports no error (its \<^verbatim>\<open>error\<close> field is absent or falsy) and whose \<^verbatim>\<open>memories\<close> is an
  empty array or absent (or \<^verbatim>\<open>null\<close>), the result is not flagged and its text is exactly
  \<^verbatim>\<open>No memories found.\<close>, which is not the empty string.
\<close>

theorem empty_result_placeholder:
  assumes "name = lit ''velixar_search'' \<or> name = lit ''velixar_list''"
    and "transmitted cfg name args = Some c"
    and "apiRequest cfg fetch c = Inr v"
    and "get_prop v (lit ''error'') = Inr e" and "\<not> truthy e"
    and "get_prop v (lit ''memories'') = Inr ms"
    and "ms = Arr [] \<or> ms = Undefined \<or> ms = Null"
  shows "\<exists>r. call_tool gt cfg fetch name args = Inr r \<and> \<not> isError r \<and>
           result_text r = lit ''No memories found.'' \<and> result_text r \<noteq> []"
proof -
  have empty: "\<not> truthy (opt_length ms)"
    using assms(7) by auto
  from assms(1) show ?thesis
  proof
    assume name: "name = lit ''velixar_search''"
    with assms(2) have "search_call cfg args = Inr c"
      by (simp add: transmitted_search made_Some)
    with assms(3) have "tool_body gt cfg fetch name args = search_render v"
      by (simp add: name tool_body_search velixar_search_def)
    moreover have "search_render v = Inr (success (lit ''No memories found.''))"
      using assms(4,5,6) empty by (simp add: search_render_def throw_if_error_falsy)
    ultimately show ?thesis
      by (simp add: call_tool_def success_def)
  next
    assume name: "name = lit ''velixar_list''"
    with assms(2) have "list_call cfg args = Inr c"
      by (simp add: transmitted_list made_Some)
    with assms(3) have "tool_body gt cfg fetch name args = list_render gt v"
      by (simp add: name tool_body_list velixar_list_def)
    moreover have "list_render gt v = Inr (success (lit ''No memories found.''))"
      using assms(4,5,6) empty by (simp add: list_render_def throw_if_error_falsy)
    ultimately show ?thesis
      by (simp add: call_tool_def success_def)
  qed
qed

theorem empty_result_placeholder_witness:
  "\<exists>r. call_tool no_gt example_config
          (respond (ok_json (Obj [(lit ''memories'', Arr []), (lit ''count'', Num 0)])))
          (lit ''velixar_search'') (Obj [(lit ''query'', Str (lit ''staging region''))]) = Inr r \<and>
        \<not> isError r \<and> result_text r = lit ''No memories found.'' \<and> result_text r \<noteq> []"
proof -
  let ?v = "Obj [(lit ''memories'', Arr []), (lit ''count'', Num 0)]"
  let ?c = "\<lparr> path = lit ''/memory/search'',
              query = [(lit ''q'', lit ''staging region''), (lit ''user_id'', lit ''test-user'')],
              http_method = None, body = None \<rparr>"
  have n: "lit ''velixar_search'' = lit ''velixar_search'' \<or> lit ''velixar_search'' = lit ''velixar_list''"
    by simp
  have t: "transmitted example_config (lit ''velixar_search'')
      (Obj [(lit ''query'', Str (lit ''staging region''))]) = Some ?c"
    by (simp add: transmitted_search made_def search_call_def example_config_def)
  have a: "apiRequest example_config (respond (ok_json ?v)) ?c = Inr ?v"
    by simp
  have e: "get_prop ?v (lit ''error'') = Inr Undefined"
    by simp
  have f: "\<not> truthy Undefined"
    by simp
  have m: "get_prop ?v (lit ''memories'') = Inr (Arr [])"
    by simp
  have z: "Arr [] = Arr [] \<or> Arr [] = Undefined \<or> Arr [] = Null"
    by simp
  show ?thesis
    by (rule empty_result_placeholder [where fetch = "respond (ok_json ?v)", OF n t a e f m z])
qed

text \<open>
  C6 as stated fails: the \<^verbatim>\<open>error\<close> field is tested before \<^verbatim>\<open>memories\<close> is read.  A search
  whose response is \<^verbatim>\<open>{"error":"bad request"}\<close>, with no \<^verbatim>\<open>memories\<close>, and a listing whose
  response is \<^verbatim>\<open>{"memories":[],"error":"down"}\<close> give a flagged error text, not the
  placeholder.
\<close>

theorem empty_memories_with_error_not_placeholder:
  "call_tool no_gt example_config
     (respond (ok_json (Obj [(lit ''error'', Str (lit ''bad request''))])))
     (lit ''velixar_search'') (Obj [(lit ''query'', Str (lit ''staging region''))]) =
   Inr \<lparr> result_text = lit ''Error: '' @ lit ''bad request'', isError = True \<rparr> \<and>
   get_prop (Obj [(lit ''error'', Str (lit ''bad request''))]) (lit ''memories'') = Inr Undefined \<and>
   lit ''Error: '' @ lit ''bad request'' \<noteq> lit ''No memories found.'' \<and>
   call_tool no_gt example_config
     (respond (ok_json (Obj [(lit ''memories'', Arr []), (lit ''error'', Str (lit ''down''))])))
     (lit ''velixar_list'') (Obj []) =
   Inr \<lparr> result_text = lit ''Error: '' @ lit ''down'', isError = True \<rparr> \<and>
   get_prop (Obj [(lit ''memories'', Arr []), (lit ''error'', Str (lit ''down''))]) (lit ''memories'') =
     Inr (Arr []) \<and>
   lit ''Error: '' @ lit ''down'' \<noteq> lit ''No memories found.''"
proof (intro conjI)
  have q1: "helpText (lit ''bad request'') = []"
    by (simp add: helpText_def includes_js_def lit_def sublist_code)
  have q2: "helpText (lit ''down'') = []"
    by (simp add: helpText_def includes_js_def lit_def sublist_code)
  show "call_tool no_gt example_config
     (respond (ok_json (Obj [(lit ''error'', Str (lit ''bad request''))])))
     (lit ''velixar_search'') (Obj [(lit ''query'', Str (lit ''staging region''))]) =
   Inr \<lparr> result_text = lit ''Error: '' @ lit ''bad request'', isError = True \<rparr>"
    using q1
    by (simp add: call_tool_def tool_body_search velixar_search_def search_call_def search_render_def
        throw_if_error_def error_result_def)
  show "call_tool no_gt example_config
     (respond (ok_json (Obj [(lit ''memories'', Arr []), (lit ''error'', Str (lit ''down''))])))
     (lit ''velixar_list'') (Obj []) =
   Inr \<lparr> result_text = lit ''Error: '' @ lit ''down'', isError = True \<rparr>"
    using q2
    by (simp add: call_tool_def tool_body_list velixar_list_def list_call_def list_render_def
        throw_if_error_def error_result_def)
  show "get_prop (Obj [(lit ''error'', Str (lit ''bad request''))]) (lit ''memories'') = Inr Undefined"
    by simp
  show "get_prop (Obj [(lit ''memories'', Arr []), (lit ''error'', Str (lit ''down''))]) (lit ''memories'') =
     Inr (Arr [])"
    by simp
  show "lit ''Error: '' @ lit ''bad request'' \<noteq> lit ''No memories found.''"
    by (simp add: lit_def)
  show "lit ''Error: '' @ lit ''down'' \<noteq> lit ''No memories found.''"
    by (simp add: lit_def)
qed

text \<open>
  C8.  A memory whose \<^verbatim>\<open>score\<close> is falsy (0 in particular) gets, in a search result, the
  line it would get without the property: the bullet and its content, with no score
  suffix.  A memory whose \<^verbatim>\<open>tier\<close> is 0 gets, in the recent-memories resource, a line that
  ends in \<^verbatim>\<open> (tier 0)\<close>.
\<close>

theorem falsy_score_hidden_tier_zero_shown:
  "(\<forall>s. map_of m (lit ''score'') = Some s \<and> \<not> truthy s \<longrightarrow>
      search_line (Obj m) = search_line (Obj (filter (\<lambda>p. fst p \<noteq> lit ''score'') m)) \<and>
      search_line (Obj m) =
        andThen (to_string (case map_of m (lit ''content'') of None \<Rightarrow> Undefined | Some c \<Rightarrow> c))
          (\<lambda>cs. Inr (bullet @ lit '' '' @ cs))) \<and>
   (map_of m (lit ''tier'') = Some (Num 0) \<longrightarrow>
      recent_line (Obj m) =
        andThen (tags_suffix (case map_of m (lit ''tags'') of None \<Rightarrow> Undefined | Some t \<Rightarrow> t)) (\<lambda>ts.
        andThen (to_string (case map_of m (lit ''content'') of None \<Rightarrow> Undefined | Some c \<Rightarrow> c)) (\<lambda>cs.
          Inr (cs @ ts @ lit '' (tier 0)''))))"
proof (intro conjI allI impI)
  fix s
  assume h: "map_of m (lit ''score'') = Some s \<and> \<not> truthy s"
  then show "search_line (Obj m) = search_line (Obj (filter (\<lambda>p. fst p \<noteq> lit ''score'') m))"
    by (simp add: search_line_def map_of_remove_key)
  from h show "search_line (Obj m) =
        andThen (to_string (case map_of m (lit ''content'') of None \<Rightarrow> Undefined | Some c \<Rightarrow> c))
          (\<lambda>cs. Inr (bullet @ lit '' '' @ cs))"
    by (simp add: search_line_def)
next
  assume h: "map_of m (lit ''tier'') = Some (Num 0)"
  have "show_int 0 = lit ''0''"
    by (simp add: show_int_def show_nat.simps lit_def)
  moreover have "lit '' (tier '' @ lit ''0'' @ lit '')'' = lit '' (tier 0)''"
    by (simp add: lit_def)
  ultimately show "recent_line (Obj m) =
        andThen (tags_suffix (case map_of m (lit ''tags'') of None \<Rightarrow> Undefined | Some t \<Rightarrow> t)) (\<lambda>ts.
        andThen (to_string (case map_of m (lit ''content'') of None \<Rightarrow> Undefined | Some c \<Rightarrow> c)) (\<lambda>cs.
          Inr (cs @ ts @ lit '' (tier 0)'')))"
    using h by (simp add: recent_line_def)
qed

theorem falsy_score_hidden_tier_zero_shown_witness:
  "search_line (Obj [(lit ''content'', Str (lit ''x'')), (lit ''score'', Num 0), (lit ''tier'', Num 0)]) =
     Inr (bullet @ lit '' '' @ lit ''x'') \<and>
   search_line (Obj [(lit ''content'', Str (lit ''x'')), (lit ''score'', Num 0), (lit ''tier'', Num 0)]) =
     search_line (Obj [(lit ''content'', Str (lit ''x'')), (lit ''tier'', Num 0)]) \<and>
   recent_line (Obj [(lit ''content'', Str (lit ''x'')), (lit ''score'', Num 0), (lit ''tier'', Num 0)]) =
     Inr (lit ''x'' @ lit '' (tier 0)'') \<and>
   call_tool no_gt example_config
     (respond (ok_json (Obj [(lit ''memories'', Arr [Obj [(lit ''content'', Str (lit ''x'')), (lit ''score'', Num 0)]]),
                             (lit ''count'', Num 1)])))
     (lit ''velixar_search'') (Obj [(lit ''query'', Str (lit ''x''))]) =
     Inr (success (lit ''Found '' @ show_int 1 @ lit '' memories:'' @ nl @ bullet @ lit '' '' @ lit ''x'')) \<and>
   read_resource example_config no_network
     (Arr [Obj [(lit ''content'', Str (lit ''x'')), (lit ''tier'', Num 0)]]) recent_uri =
     (Inr \<lparr> rc_uri = recent_uri, rc_mimeType = lit ''text/plain'',
            rc_text = lit ''x'' @ lit '' (tier '' @ show_int 0 @ lit '')'' \<rparr>,
      Arr [Obj [(lit ''content'', Str (lit ''x'')), (lit ''tier'', Num 0)]])"
proof -
  let ?m = "[(lit ''content'', Str (lit ''x'')), (lit ''score'', Num 0), (lit ''tier'', Num 0)]"
  have s: "map_of ?m (lit ''score'') = Some (Num 0) \<and> \<not> truthy (Num 0)"
    by simp
  have t: "map_of ?m (lit ''tier'') = Some (Num 0)"
    by simp
  note w = falsy_score_hidden_tier_zero_shown [of ?m]
  from w s have "search_line (Obj ?m) =
      andThen (to_string (case map_of ?m (lit ''content'') of None \<Rightarrow> Undefined | Some c \<Rightarrow> c))
        (\<lambda>cs. Inr (bullet @ lit '' '' @ cs))"
    by blast
  then have a: "search_line (Obj ?m) = Inr (bullet @ lit '' '' @ lit ''x'')"
    by simp
  from w s have "search_line (Obj ?m) = search_line (Obj (filter (\<lambda>p. fst p \<noteq> lit ''score'') ?m))"
    by blast
  then have b: "search_line (Obj ?m) =
      search_line (Obj [(lit ''content'', Str (lit ''x'')), (lit ''tier'', Num 0)])"
    by simp
  from w t have "recent_line (Obj ?m) =
      andThen (tags_suffix (case map_of ?m (lit ''tags'') of None \<Rightarrow> Undefined | Some t \<Rightarrow> t)) (\<lambda>ts.
      andThen (to_string (case map_of ?m (lit ''content'') of None \<Rightarrow> Undefined | Some c \<Rightarrow> c)) (\<lambda>cs.
        Inr (cs @ ts @ lit '' (tier 0)'')))"
    by blast
  then have c: "recent_line (Obj ?m) = Inr (lit ''x'' @ lit '' (tier 0)'')"
    by (simp add: tags_suffix_def)
  have d: "call_tool no_gt example_config
     (respond (ok_json (Obj [(lit ''memories'', Arr [Obj [(lit ''content'', Str (lit ''x'')), (lit ''score'', Num 0)]]),
                             (lit ''count'', Num 1)])))
     (lit ''velixar_search'') (Obj [(lit ''query'', Str (lit ''x''))]) =
     Inr (success (lit ''Found '' @ show_int 1 @ lit '' memories:'' @ nl @ bullet @ lit '' '' @ lit ''x''))"
    by (simp add: call_tool_def tool_body_search velixar_search_def search_call_def search_render_def
        throw_if_error_def array_map_def search_line_def)
  have e: "read_resource example_config no_network
     (Arr [Obj [(lit ''content'', Str (lit ''x'')), (lit ''tier'', Num 0)]]) recent_uri =
     (Inr \<lparr> rc_uri = recent_uri, rc_mimeType = lit ''text/plain'',
            rc_text = lit ''x'' @ lit '' (tier '' @ show_int 0 @ lit '')'' \<rparr>,
      Arr [Obj [(lit ''content'', Str (lit ''x'')), (lit ''tier'', Num 0)]])"
    by (simp add: read_resource_def array_map_def recent_line_def tags_suffix_def)
  from a b c d e show ?thesis
    by (intro conjI)
qed

section \<open>The HTTP client wrapper\<close>

text \<open>
  C7.  When \<^verbatim>\<open>fetch\<close> resolves to a response whose status is not a success,
  \<^verbatim>\<open>apiRequest\<close> throws an error whose message is \<^verbatim>\<open>API \<close>, the status in decimal, a colon
  and a prefix \<open>b\<close> of the response text of at most 200 code units (the empty string when
  the text cannot be read).
\<close>

theorem apiRequest_non_success:
  assumes "fetch (build_request cfg c) = Resolved res" and "\<not> ok res"
  shows "\<exists>b. apiRequest cfg fetch c =
              Inl (Error (lit ''API '' @ show_nat (status res) @ lit '': '' @ b)) \<and>
            b = take 200 (case text_body res of None \<Rightarrow> [] | Some t \<Rightarrow> t) \<and>
            length b \<le> 200 \<and>
            prefix b (case text_body res of None \<Rightarrow> [] | Some t \<Rightarrow> t)"
  using assms by (simp add: apiRequest_def take_is_prefix)

theorem apiRequest_non_success_witness:
  "apiRequest example_config (respond server_error)
     \<lparr> path = lit ''/memory/m1'', query = [], http_method = Some (lit ''DELETE''), body = None \<rparr> =
   Inl (Error (lit ''API 500: Internal Server Error''))"
proof -
  let ?c = "\<lparr> path = lit ''/memory/m1'', query = [], http_method = Some (lit ''DELETE''), body = None \<rparr>"
  have f: "respond server_error (build_request example_config ?c) = Resolved server_error"
    by (simp add: respond_def)
  have n: "\<not> ok server_error"
    by (simp add: server_error_def)
  from apiRequest_non_success [where fetch = "respond server_error", OF f n]
  have "apiRequest example_config (respond server_error) ?c =
      Inl (Error (lit ''API '' @ show_nat (status server_error) @ lit '': '' @
        take 200 (case text_body server_error of None \<Rightarrow> [] | Some t \<Rightarrow> t)))"
    by blast
  moreover have "lit ''API '' @ show_nat (status server_error) @ lit '': '' @
      take 200 (case text_body server_error of None \<Rightarrow> [] | Some t \<Rightarrow> t) =
      lit ''API 500: Internal Server Error''"
    by (simp add: server_error_def lit_def show_nat.simps)
  ultimately show ?thesis
    by simp
qed

section \<open>Reading the resource with auto-recall disabled\<close>

text \<open>
  C9.  With auto-recall disabled, \<^verbatim>\<open>fetchRecall\<close> leaves the slot as it is, so the slot
  stays \<^verbatim>\<open>null\<close>; a read of \<^verbatim>\<open>velixar://memories/recent\<close> returns, with the text
  \<^verbatim>\<open>No memories found.\<close> and the slot still \<^verbatim>\<open>null\<close>, rather than throwing; and the listing of
  resources is empty.
\<close>

theorem recent_readable_when_recall_disabled:
  assumes "\<not> AUTO_RECALL cfg"
  shows "fetchRecall cfg fetch slot = slot \<and>
         read_resource cfg fetch initial_slot recent_uri =
           (Inr \<lparr> rc_uri = recent_uri, rc_mimeType = lit ''text/plain'',
                  rc_text = lit ''No memories found.'' \<rparr>, initial_slot) \<and>
         initial_slot = Null \<and>
         list_resources cfg slot = Inr []"
  using assms
  by (simp add: fetchRecall_def read_resource_def list_resources_def initial_slot_def array_map_def)

theorem recent_readable_when_recall_disabled_witness:
  "fetchRecall recall_off no_network initial_slot = initial_slot \<and>
   read_resource recall_off no_network initial_slot recent_uri =
     (Inr \<lparr> rc_uri = recent_uri, rc_mimeType = lit ''text/plain'',
            rc_text = lit ''No memories found.'' \<rparr>, initial_slot) \<and>
   initial_slot = Null \<and>
   list_resources recall_off initial_slot = Inr []"
proof -
  have "\<not> AUTO_RECALL recall_off"
    by (simp add: recall_off_def example_config_def)
  then show ?thesis
    by (rule recent_readable_when_recall_disabled)
qed

end
